theory Spec2Isabelle
  imports Main "HOL-Library.Word"
begin

section \<open>JavaScript values\<close>

text \<open>
  A JavaScript string is a sequence of UTF-16 code units; a code unit is modelled by its
  number. A \<open>Buffer\<close> is a sequence of bytes. String literals of the source are written
  \<open>js ''...''\<close>.
\<close>

type_synonym jsstring = "nat list"
type_synonym buffer = "8 word list"

definition js :: "string \<Rightarrow> jsstring" where
  "js s = map of_char s"

text \<open>\<open>s.includes(t)\<close>: \<open>t\<close> occurs in \<open>s\<close> as a contiguous run.\<close>

fun str_includes :: "jsstring \<Rightarrow> jsstring \<Rightarrow> bool" where
  "str_includes [] t = (t = [])"
| "str_includes (x # xs) t = (take (length t) (x # xs) = t \<or> str_includes xs t)"

text \<open>\<open>s.startsWith(t)\<close>.\<close>

definition startsWith :: "jsstring \<Rightarrow> jsstring \<Rightarrow> bool" where
  "startsWith s t = (take (length t) s = t)"

text \<open>
  The white space and line terminators that \<open>String.prototype.trim\<close> removes from both
  ends: TAB, LF, VT, FF, CR, SP, NBSP, U+1680, U+2000 to U+200A, U+2028, U+2029, U+202F,
  U+205F, U+3000 and U+FEFF.
\<close>

definition is_js_space :: "nat \<Rightarrow> bool" where
  "is_js_space c =
     ((9 \<le> c \<and> c \<le> 13) \<or> c = 32 \<or> c = 160 \<or> c = 5760 \<or> (8192 \<le> c \<and> c \<le> 8202)
      \<or> c = 8232 \<or> c = 8233 \<or> c = 8239 \<or> c = 8287 \<or> c = 12288 \<or> c = 65279)"

definition trim :: "jsstring \<Rightarrow> jsstring" where
  "trim s = rev (dropWhile is_js_space (rev (dropWhile is_js_space s)))"

text \<open>Template-literal formatting of a non-negative integer: its decimal digits.\<close>

fun digits :: "nat \<Rightarrow> jsstring" where
  "digits n = (if n < 10 then [48 + n] else digits (n div 10) @ [48 + n mod 10])"

declare digits.simps [simp del]

text \<open>
  A parsed JSON document. Only the truthiness of a number matters below, so a number is
  kept as an integer.
\<close>

datatype json =
    JNull
  | JBool bool
  | JNumber int
  | JString jsstring
  | JArray "json list"
  | JObject "(jsstring \<times> json) list"

text \<open>JavaScript truthiness: \<open>null\<close>, \<open>false\<close>, \<open>0\<close> and \<open>""\<close> are falsy.\<close>

fun truthy :: "json \<Rightarrow> bool" where
  "truthy JNull = False"
| "truthy (JBool b) = b"
| "truthy (JNumber n) = (n \<noteq> 0)"
| "truthy (JString s) = (s \<noteq> [])"
| "truthy (JArray xs) = True"
| "truthy (JObject kvs) = True"

text \<open>
  \<open>v.errors\<close>: reading a property of \<open>null\<close> throws a TypeError (\<open>Inl\<close>); an object
  gives the field, or \<open>undefined\<close> (\<open>None\<close>) when it has none; the other values have no
  such property.
\<close>

fun get_errors :: "json \<Rightarrow> jsstring + json option" where
  "get_errors JNull = Inl (js ''Cannot read properties of null (reading 'errors')'')"
| "get_errors (JObject kvs) = Inr (map_of kvs (js ''errors''))"
| "get_errors v = Inr None"

text \<open>\<open>typeof v\<close>.\<close>

fun typeof :: "json \<Rightarrow> jsstring" where
  "typeof (JBool b) = js ''boolean''"
| "typeof (JNumber n) = js ''number''"
| "typeof (JString s) = js ''string''"
| "typeof v = js ''object''"

section \<open>Errors\<close>

text \<open>
  A thrown value is either a plain \<open>Error\<close> with its message or an axios error. Of an
  axios error the code reads \<open>message\<close>, \<open>response?.status\<close>,
  \<open>response?.data?.errors?.[0]\<close> with its \<open>detail\<close> and \<open>title\<close>, \<open>config?.url\<close> and the
  truthiness of \<open>config?.params?.include\<close>; an absent value is \<open>None\<close>.
\<close>

record api_error =
  detail :: "jsstring option"
  title :: "jsstring option"

record axios_error =
  ax_message :: jsstring
  response_status :: "nat option"
  response_error0 :: "api_error option"
  config_url :: "jsstring option"
  config_params_include :: bool

datatype error = Error jsstring | AxiosError axios_error

fun error_message :: "error \<Rightarrow> jsstring" where
  "error_message (Error m) = m"
| "error_message (AxiosError e) = ax_message e"

section \<open>The error classifier (index.ts, formatToolResponse)\<close>

text \<open>\<open>a || b\<close> on an optional string: \<open>undefined\<close> and \<open>""\<close> are falsy.\<close>

definition or_else :: "jsstring option \<Rightarrow> jsstring \<Rightarrow> jsstring" where
  "or_else a b = (case a of None \<Rightarrow> b | Some s \<Rightarrow> if s = [] then b else s)"

text \<open>\<open>error.config?.url?.includes(t)\<close>: \<open>undefined\<close>, hence falsy, without a url.\<close>

definition url_includes :: "jsstring option \<Rightarrow> jsstring \<Rightarrow> bool" where
  "url_includes u t = (case u of None \<Rightarrow> False | Some s \<Rightarrow> str_includes s t)"

text \<open>An optional value inside a template literal.\<close>

definition show_url :: "jsstring option \<Rightarrow> jsstring" where
  "show_url u = (case u of None \<Rightarrow> js ''undefined'' | Some s \<Rightarrow> s)"

definition show_status :: "nat option \<Rightarrow> jsstring" where
  "show_status st = (case st of None \<Rightarrow> js ''undefined'' | Some n \<Rightarrow> digits n)"

definition sales_not_found :: jsstring where
  "sales_not_found =
     js ''Sales report not found. This typically happens when:\<newline>'' @
     js ''- The requested date is in the future\<newline>'' @
     js ''- No sales data exists for the requested period\<newline>'' @
     js ''- The report hasn't been generated yet (reports are usually available 1-2 days after the period ends)''"

definition finance_not_found :: jsstring where
  "finance_not_found =
     js ''Finance report not found. This typically happens when:\<newline>'' @
     js ''- The requested date is in the future\<newline>'' @
     js ''- No financial data exists for the requested period\<newline>'' @
     js ''- The report hasn't been generated yet (finance reports are usually available after the 5th of the following month)''"

definition invalid_includes :: jsstring where
  "invalid_includes =
     js ''Bad request: Invalid relationship includes. '' @
     js ''Common issues:\<newline>'' @
     js ''- Using '' @ [34] @ js ''customerReviews'' @ [34] @ js '' instead of '' @ [34] @
       js ''reviewSubmissions'' @ [34] @ js ''\<newline>'' @
     js ''- Using '' @ [34] @ js ''perfPowerMetrics'' @ [34] @
       js '' which is not a valid relationship\<newline>'' @
     js ''- Check that all include values match the API documentation exactly''"

definition bad_request :: jsstring where
  "bad_request =
     js ''Bad request: The request parameters are invalid. Check that all values match the API requirements.''"

text \<open>The message computed for an axios error, in the order of the source's branches.\<close>

definition axios_error_message :: "axios_error \<Rightarrow> jsstring" where
  "axios_error_message e =
     (let status = response_status e; apiError = response_error0 e in
      if status = Some 404 then
        (if url_includes (config_url e) (js ''/salesReports'') then sales_not_found
         else if url_includes (config_url e) (js ''/financeReports'') then finance_not_found
         else or_else (case apiError of None \<Rightarrow> None | Some a \<Rightarrow> detail a)
                (js ''Resource not found (404): '' @ show_url (config_url e)))
      else if status = Some 400 then
        (if url_includes (config_url e) (js ''/apps/'') \<and> config_params_include e
         then invalid_includes
         else or_else (case apiError of None \<Rightarrow> None | Some a \<Rightarrow> detail a) bad_request)
      else (case apiError of
              Some a \<Rightarrow>
                js ''App Store Connect API error: '' @
                or_else (detail a) (or_else (title a) (ax_message e))
            | None \<Rightarrow>
                js ''Request failed with status '' @ show_status status @ js '': '' @
                ax_message e))"

record tool_response =
  isError :: bool
  text_content :: jsstring

text \<open>
  \<open>formatToolResponse(result, error?)\<close>; \<open>stringify\<close> stands for \<open>JSON.stringify\<close>.
\<close>

definition formatToolResponse ::
  "(json \<Rightarrow> jsstring) \<Rightarrow> json \<Rightarrow> error option \<Rightarrow> tool_response" where
  "formatToolResponse stringify result err =
     (case err of
        Some e \<Rightarrow>
          \<lparr>isError = True,
           text_content = (case e of AxiosError a \<Rightarrow> axios_error_message a
                                   | Error m \<Rightarrow> m)\<rparr>
      | None \<Rightarrow>
          \<lparr>isError = False,
           text_content = (case result of JString s \<Rightarrow> s | _ \<Rightarrow> stringify result)\<rparr>)"

section \<open>The platform\<close>

text \<open>
  What the clients use and the repository does not define: the token provider
  (\<open>authService.generateToken\<close>), the transport (axios), zlib's \<open>gunzipSync\<close>, the
  \<open>Buffer\<close> and \<open>JSON\<close> built-ins, \<open>os.tmpdir\<close>, and the helpers \<open>validateRequired\<close> and
  \<open>buildFilterParams\<close> of \<open>utils\<close>. A function that can throw returns \<open>Inl\<close> with the
  thrown error or its message; \<open>validateRequired\<close> returns the message it throws, if any.
\<close>

datatype http_method = GET | POST | PUT | DELETE

datatype response_data = ArrayBufferData buffer | BufferData buffer | OtherData json

record axios_config =
  cfg_method :: http_method
  cfg_url :: jsstring
  cfg_baseURL :: "jsstring option"
  cfg_data :: "json option"
  cfg_params :: "(jsstring \<times> json) list option"
  cfg_headers :: "(jsstring \<times> jsstring) list"
  cfg_responseType :: "jsstring option"

record platform =
  generateToken :: "error + jsstring"
  axios_request :: "axios_config \<Rightarrow> error + response_data"
  gunzipSync :: "buffer \<Rightarrow> jsstring + buffer"
  toString_utf8 :: "buffer \<Rightarrow> jsstring"
  Buffer_from :: "json \<Rightarrow> jsstring + buffer"
  JSON_parse :: "jsstring \<Rightarrow> jsstring + json"
  JSON_stringify :: "json \<Rightarrow> jsstring"
  tmpdir :: jsstring
  validateRequired :: "(jsstring \<times> json option) list \<Rightarrow> jsstring list \<Rightarrow> jsstring option"
  buildFilterParams :: "(jsstring \<times> json) list \<Rightarrow> (jsstring \<times> json) list"

section \<open>The world: files and outgoing calls\<close>

text \<open>
  The state the clients change: the files of the temporary directory, by path, and the
  calls made so far (token generation, HTTP request). The three fault tables say for which
  path a write, a read or a removal fails, and with which message; no operation changes
  them. Console output is not modelled.
\<close>

datatype call = TokenCall | HttpCall axios_config

record world =
  files :: "jsstring \<rightharpoonup> buffer"
  write_fault :: "jsstring \<Rightarrow> jsstring option"
  read_fault :: "jsstring \<Rightarrow> jsstring option"
  unlink_fault :: "jsstring \<Rightarrow> jsstring option"
  calls :: "call list"

definition enoent :: "jsstring \<Rightarrow> jsstring \<Rightarrow> jsstring" where
  "enoent syscall p =
     js ''ENOENT: no such file or directory, '' @ syscall @ js '' '' @ [39] @ p @ [39]"

definition writeFileSync :: "world \<Rightarrow> jsstring \<Rightarrow> buffer \<Rightarrow> jsstring + world" where
  "writeFileSync w p b =
     (case write_fault w p of
        Some m \<Rightarrow> Inl m
      | None \<Rightarrow> Inr (w\<lparr>files := (files w)(p \<mapsto> b)\<rparr>))"

definition readFileSync :: "world \<Rightarrow> jsstring \<Rightarrow> jsstring + buffer" where
  "readFileSync w p =
     (case files w p of
        None \<Rightarrow> Inl (enoent (js ''open'') p)
      | Some b \<Rightarrow> (case read_fault w p of Some m \<Rightarrow> Inl m | None \<Rightarrow> Inr b))"

definition unlinkSync :: "world \<Rightarrow> jsstring \<Rightarrow> jsstring + world" where
  "unlinkSync w p =
     (case files w p of
        None \<Rightarrow> Inl (enoent (js ''unlink'') p)
      | Some b \<Rightarrow>
          (case unlink_fault w p of
             Some m \<Rightarrow> Inl m
           | None \<Rightarrow> Inr (w\<lparr>files := (files w)(p := None)\<rparr>)))"

definition existsSync :: "world \<Rightarrow> jsstring \<Rightarrow> bool" where
  "existsSync w p = (files w p \<noteq> None)"

definition call_generateToken :: "platform \<Rightarrow> world \<Rightarrow> world \<times> (error + jsstring)" where
  "call_generateToken P w = (w\<lparr>calls := calls w @ [TokenCall]\<rparr>, generateToken P)"

definition call_axios ::
  "platform \<Rightarrow> world \<Rightarrow> axios_config \<Rightarrow> world \<times> (error + response_data)" where
  "call_axios P w cfg = (w\<lparr>calls := calls w @ [HttpCall cfg]\<rparr>, axios_request P cfg)"

section \<open>The staging client (services/appstore-client.ts, request)\<close>

definition api_root :: jsstring where
  "api_root = js ''https://api.appstoreconnect.apple.com/v1''"

definition isReportEndpoint :: "jsstring \<Rightarrow> bool" where
  "isReportEndpoint url =
     (str_includes url (js ''/salesReports'') \<or> str_includes url (js ''/financeReports''))"

definition request_headers :: "jsstring \<Rightarrow> jsstring \<Rightarrow> (jsstring \<times> jsstring) list" where
  "request_headers token url =
     [(js ''Authorization'', js ''Bearer '' @ token),
      (js ''Content-Type'', js ''application/json'')] @
     (if isReportEndpoint url
      then [(js ''Accept'', js ''application/a-gzip, application/json'')] else [])"

text \<open>
  The configuration handed to \<open>axiosInstance.request\<close>; the base URL is the one the
  instance was created with.
\<close>

definition request_config ::
  "jsstring \<Rightarrow> http_method \<Rightarrow> jsstring \<Rightarrow> json option \<Rightarrow> (jsstring \<times> json) list option
   \<Rightarrow> axios_config" where
  "request_config token method url data params =
     \<lparr>cfg_method = method, cfg_url = url, cfg_baseURL = Some api_root, cfg_data = data,
      cfg_params = params, cfg_headers = request_headers token url,
      cfg_responseType =
        Some (if isReportEndpoint url then js ''arraybuffer'' else js ''json'')\<rparr>"

text \<open>The gzip magic number \<open>1f 8b\<close>.\<close>

definition is_gzip :: "buffer \<Rightarrow> bool" where
  "is_gzip buf = (length buf \<ge> 2 \<and> buf ! 0 = 0x1f \<and> buf ! 1 = 0x8b)"

text \<open>
  The two staged files, named from \<open>Date.now()\<close> and a random number below 10000.
  \<open>path.join\<close> is modelled on a temporary directory that is already normalised.
\<close>

definition temp_stem :: "platform \<Rightarrow> nat \<Rightarrow> nat \<Rightarrow> jsstring" where
  "temp_stem P timestamp random =
     tmpdir P @ js ''/'' @ js ''apple_report_'' @ digits timestamp @ js ''_'' @ digits random"

definition tempGzPath :: "platform \<Rightarrow> nat \<Rightarrow> nat \<Rightarrow> jsstring" where
  "tempGzPath P timestamp random = temp_stem P timestamp random @ js ''.gz''"

definition tempTxtPath :: "platform \<Rightarrow> nat \<Rightarrow> nat \<Rightarrow> jsstring" where
  "tempTxtPath P timestamp random = temp_stem P timestamp random @ js ''.txt''"

text \<open>
  The removal at the end of the \<open>try\<close> block: when the first \<open>unlinkSync\<close> throws, the
  second is not reached and the warning is logged.
\<close>

definition cleanup_after_success :: "world \<Rightarrow> jsstring \<Rightarrow> jsstring \<Rightarrow> world" where
  "cleanup_after_success w gz txt =
     (case unlinkSync w gz of
        Inl e \<Rightarrow> w
      | Inr w1 \<Rightarrow> (case unlinkSync w1 txt of Inl e \<Rightarrow> w1 | Inr w2 \<Rightarrow> w2))"

text \<open>
  The body of the \<open>try\<close> block: the world where it stopped, and the thrown message or
  the text read back.
\<close>

definition stage_and_decompress ::
  "platform \<Rightarrow> world \<Rightarrow> jsstring \<Rightarrow> jsstring \<Rightarrow> buffer \<Rightarrow> world \<times> (jsstring + jsstring)" where
  "stage_and_decompress P w gz txt buf =
     (case writeFileSync w gz buf of
        Inl e \<Rightarrow> (w, Inl e)
      | Inr w1 \<Rightarrow>
     (case gunzipSync P buf of
        Inl e \<Rightarrow> (w1, Inl e)
      | Inr decompressed \<Rightarrow>
     (case writeFileSync w1 txt decompressed of
        Inl e \<Rightarrow> (w1, Inl e)
      | Inr w2 \<Rightarrow>
     (case readFileSync w2 txt of
        Inl e \<Rightarrow> (w2, Inl e)
      | Inr bytes \<Rightarrow>
          (let csvData = toString_utf8 P bytes in
           if csvData = [] \<or> str_includes csvData [0]
           then (w2, Inl (js ''Decompressed data contains invalid characters''))
           else (cleanup_after_success w2 gz txt, Inr csvData))))))"

text \<open>The removal in the \<open>catch\<close> block; a failure of it is ignored.\<close>

definition cleanup_after_error :: "world \<Rightarrow> jsstring \<Rightarrow> jsstring \<Rightarrow> world" where
  "cleanup_after_error w gz txt =
     (case (if existsSync w gz then unlinkSync w gz else Inr w) of
        Inl e \<Rightarrow> w
      | Inr w1 \<Rightarrow>
          (case (if existsSync w1 txt then unlinkSync w1 txt else Inr w1) of
             Inl e \<Rightarrow> w1
           | Inr w2 \<Rightarrow> w2))"

text \<open>What \<open>request\<close> returns: \<open>{ data: text }\<close> for a report, else \<open>response.data\<close>.\<close>

datatype payload = ReportData jsstring | ResponseData response_data

definition decompress_staged ::
  "platform \<Rightarrow> nat \<Rightarrow> nat \<Rightarrow> world \<Rightarrow> buffer \<Rightarrow> world \<times> (error + payload)" where
  "decompress_staged P timestamp random w buf =
     (let gz = tempGzPath P timestamp random; txt = tempTxtPath P timestamp random in
      case stage_and_decompress P w gz txt buf of
        (w', Inr csvData) \<Rightarrow> (w', Inr (ReportData csvData))
      | (w', Inl m) \<Rightarrow>
          (cleanup_after_error w' gz txt,
           Inl (Error (js ''Failed to decompress report data: '' @ m))))"

text \<open>The inner \<open>try\<close> block of the branch for a buffer that is not gzipped.\<close>

definition api_error_check :: "platform \<Rightarrow> jsstring \<Rightarrow> jsstring + unit" where
  "api_error_check P textData =
     (case JSON_parse P textData of
        Inl e \<Rightarrow> Inl e
      | Inr jsonData \<Rightarrow>
          (case get_errors jsonData of
             Inl e \<Rightarrow> Inl e
           | Inr None \<Rightarrow> Inr ()
           | Inr (Some errors) \<Rightarrow>
               if truthy errors
               then Inl (js ''API Error: '' @ JSON_stringify P errors)
               else Inr ()))"

text \<open>
  The branch itself: the \<open>catch\<close> of the inner \<open>try\<close> has an empty body, so whatever
  was thrown inside, the text is returned.
\<close>

definition plain_report :: "platform \<Rightarrow> buffer \<Rightarrow> error + payload" where
  "plain_report P buf =
     (let textData = toString_utf8 P buf in
      if startsWith (trim textData) (js ''{'')
      then (case api_error_check P textData of
              Inl e \<Rightarrow> Inr (ReportData textData)
            | Inr u \<Rightarrow> Inr (ReportData textData))
      else Inr (ReportData textData))"

text \<open>The handling of a report response; the outer \<open>catch\<close> rethrows what it caught.\<close>

definition report_response ::
  "platform \<Rightarrow> nat \<Rightarrow> nat \<Rightarrow> world \<Rightarrow> response_data \<Rightarrow> world \<times> (error + payload)" where
  "report_response P timestamp random w d =
     (case (case d of
              ArrayBufferData b \<Rightarrow> Inr b
            | BufferData b \<Rightarrow> Inr b
            | OtherData v \<Rightarrow> Inl (js ''Unexpected response data type: '' @ typeof v)) of
        Inl m \<Rightarrow> (w, Inl (Error m))
      | Inr buf \<Rightarrow>
          if is_gzip buf then decompress_staged P timestamp random w buf
          else (w, plain_report P buf))"

definition request ::
  "platform \<Rightarrow> nat \<Rightarrow> nat \<Rightarrow> world \<Rightarrow> http_method \<Rightarrow> jsstring \<Rightarrow> json option
   \<Rightarrow> (jsstring \<times> json) list option \<Rightarrow> world \<times> (error + payload)" where
  "request P timestamp random w method url data params =
     (case call_generateToken P w of
        (w1, Inl e) \<Rightarrow> (w1, Inl e)
      | (w1, Inr token) \<Rightarrow>
     (case call_axios P w1 (request_config token method url data params) of
        (w2, Inl e) \<Rightarrow> (w2, Inl e)
      | (w2, Inr d) \<Rightarrow>
          if isReportEndpoint url then report_response P timestamp random w2 d
          else (w2, Inr (ResponseData d))))"

section \<open>The in-memory client (downloadReport)\<close>

definition downloadReport_config ::
  "jsstring \<Rightarrow> jsstring \<Rightarrow> (jsstring \<times> json) list option \<Rightarrow> axios_config" where
  "downloadReport_config token url params =
     \<lparr>cfg_method = GET, cfg_url = url, cfg_baseURL = Some api_root, cfg_data = None,
      cfg_params = params,
      cfg_headers = [(js ''Authorization'', js ''Bearer '' @ token),
                     (js ''Accept'', js ''application/a-gzip'')],
      cfg_responseType = Some (js ''arraybuffer'')\<rparr>"

text \<open>The decoding of the response buffer, in memory.\<close>

definition decode_report :: "platform \<Rightarrow> buffer \<Rightarrow> error + jsstring" where
  "decode_report P buf =
     (if is_gzip buf
      then (case gunzipSync P buf of
              Inl m \<Rightarrow> Inl (Error m)
            | Inr decompressed \<Rightarrow> Inr (toString_utf8 P decompressed))
      else Inr (toString_utf8 P buf))"

text \<open>
  \<open>downloadReport(url, params)\<close>; the \<open>catch\<close> block logs and rethrows. The token is
  generated before the \<open>try\<close>.
\<close>

definition downloadReport ::
  "platform \<Rightarrow> world \<Rightarrow> jsstring \<Rightarrow> (jsstring \<times> json) list option
   \<Rightarrow> world \<times> (error + jsstring)" where
  "downloadReport P w url params =
     (case call_generateToken P w of
        (w1, Inl e) \<Rightarrow> (w1, Inl e)
      | (w1, Inr token) \<Rightarrow>
     (case call_axios P w1 (downloadReport_config token url params) of
        (w2, Inl e) \<Rightarrow> (w2, Inl e)
      | (w2, Inr d) \<Rightarrow>
          (case (case d of
                   ArrayBufferData b \<Rightarrow> Inr b
                 | BufferData b \<Rightarrow> Inr b
                 | OtherData v \<Rightarrow> Buffer_from P v) of
             Inl m \<Rightarrow> (w2, Inl (Error m))
           | Inr buf \<Rightarrow> (w2, decode_report P buf))))"

section \<open>The report handlers (handlers/analytics.ts)\<close>

text \<open>The test of \<open>/^\d{4}-\d{2}$/\<close>: four digits, a hyphen, two digits, nothing else.\<close>

definition is_digit :: "nat \<Rightarrow> bool" where
  "is_digit c = (48 \<le> c \<and> c \<le> 57)"

fun datePattern_test :: "jsstring \<Rightarrow> bool" where
  "datePattern_test [y1, y2, y3, y4, h, m1, m2] =
     (is_digit y1 \<and> is_digit y2 \<and> is_digit y3 \<and> is_digit y4 \<and> h = 45 \<and>
      is_digit m1 \<and> is_digit m2)"
| "datePattern_test s = False"

text \<open>\<open>s.split(c)\<close> for a separator of one code unit.\<close>

fun split_on :: "nat \<Rightarrow> jsstring \<Rightarrow> jsstring list" where
  "split_on c [] = [[]]"
| "split_on c (x # xs) =
     (if x = c then [] # split_on c xs
      else (case split_on c xs of
              [] \<Rightarrow> [[x]]
            | p # ps \<Rightarrow> (x # p) # ps))"

text \<open>
  \<open>Number(s)\<close> on a run of decimal digits (the empty string gives 0); \<open>None\<close> is NaN.
  The other numeric forms \<open>Number\<close> accepts cannot pass the pattern test before it.
\<close>

definition Number_of :: "jsstring \<Rightarrow> int option" where
  "Number_of s =
     (if list_all is_digit s then Some (foldl (\<lambda>a c. 10 * a + (int c - 48)) 0 s)
      else None)"

text \<open>
  A point in local time is the calendar month it falls in, counted as
  \<open>12 * year + monthIndex\<close>, and the milliseconds since that month began; the order of
  two points is the lexicographic one. \<open>new Date(year, monthIndex)\<close> is the start of a
  month, a year from 0 to 99 standing for 1900 to 1999.
\<close>

record instant =
  month_number :: int
  ms_in_month :: nat

definition new_Date :: "int \<Rightarrow> int \<Rightarrow> instant" where
  "new_Date year monthIndex =
     \<lparr>month_number = 12 * (if 0 \<le> year \<and> year \<le> 99 then 1900 + year else year) + monthIndex,
      ms_in_month = 0\<rparr>"

definition instant_gt :: "instant \<Rightarrow> instant \<Rightarrow> bool" where
  "instant_gt a b =
     (month_number a > month_number b \<or>
      (month_number a = month_number b \<and> ms_in_month a > ms_in_month b))"

text \<open>
  \<open>reportDateObj > currentDate\<close>, from \<open>reportDate.split('-').map(Number)\<close>; a
  comparison with an invalid date is false.
\<close>

definition in_future :: "instant \<Rightarrow> jsstring \<Rightarrow> bool" where
  "in_future currentDate reportDate =
     (case map Number_of (split_on 45 reportDate) of
        Some year # Some month # rest \<Rightarrow> instant_gt (new_Date year (month - 1)) currentDate
      | _ \<Rightarrow> False)"

definition vendor_required :: jsstring where
  "vendor_required =
     js ''Vendor number is required. Please provide it as an argument or set APP_STORE_CONNECT_VENDOR_NUMBER environment variable.''"

definition date_format_required :: jsstring where
  "date_format_required = js ''Report date must be in YYYY-MM format (e.g., 2024-01)''"

definition future_sales_date :: "jsstring \<Rightarrow> jsstring" where
  "future_sales_date reportDate =
     js ''Cannot request sales report for future date: '' @ reportDate @
     js ''. Sales reports are only available for past months.''"

definition future_finance_date :: "jsstring \<Rightarrow> jsstring" where
  "future_finance_date reportDate =
     js ''Cannot request finance report for future date: '' @ reportDate @
     js ''. Finance reports are only available for past months.''"

text \<open>
  The arguments of the two tools; an optional argument that is absent is \<open>None\<close>. The
  vendor number of the configuration is \<open>this.config?.vendorNumber\<close>.
\<close>

record sales_args =
  vendorNumber :: "jsstring option"
  reportType :: "jsstring option"
  reportSubType :: "jsstring option"
  frequency :: "jsstring option"
  reportDate :: jsstring

record finance_args =
  fin_vendorNumber :: "jsstring option"
  fin_reportDate :: jsstring
  regionCode :: jsstring

text \<open>
  A destructuring default applies when the argument is \<open>undefined\<close>; the default of the
  vendor number is the configured one, which may be absent too.
\<close>

definition default_to :: "'a option \<Rightarrow> 'a \<Rightarrow> 'a" where
  "default_to a d = (case a of None \<Rightarrow> d | Some v \<Rightarrow> v)"

definition resolve_vendor :: "jsstring option \<Rightarrow> jsstring option \<Rightarrow> jsstring option" where
  "resolve_vendor arg config_vendor = (case arg of None \<Rightarrow> config_vendor | Some v \<Rightarrow> Some v)"

text \<open>
  \<open>downloadSalesReport(args)\<close>, run at \<open>currentDate\<close> with the configured vendor number.
  \<open>!vendorNumber\<close> holds for \<open>undefined\<close> and for the empty string.
\<close>

definition downloadSalesReport ::
  "platform \<Rightarrow> instant \<Rightarrow> jsstring option \<Rightarrow> world \<Rightarrow> sales_args
   \<Rightarrow> world \<times> (error + jsstring)" where
  "downloadSalesReport P currentDate config_vendor w args =
     (case resolve_vendor (vendorNumber args) config_vendor of
        None \<Rightarrow> (w, Inl (Error vendor_required))
      | Some vendor \<Rightarrow>
     if vendor = [] then (w, Inl (Error vendor_required))
     else
     (case validateRequired P [(js ''reportDate'', Some (JString (reportDate args)))]
             [js ''reportDate''] of
        Some m \<Rightarrow> (w, Inl (Error m))
      | None \<Rightarrow>
     if \<not> datePattern_test (reportDate args)
     then (w, Inl (Error date_format_required))
     else if in_future currentDate (reportDate args)
     then (w, Inl (Error (future_sales_date (reportDate args))))
     else downloadReport P w (js ''/salesReports'')
            (Some (buildFilterParams P
               [(js ''reportDate'', JString (reportDate args)),
                (js ''reportType'', JString (default_to (reportType args) (js ''SALES''))),
                (js ''reportSubType'',
                   JString (default_to (reportSubType args) (js ''SUMMARY''))),
                (js ''frequency'', JString (default_to (frequency args) (js ''MONTHLY''))),
                (js ''vendorNumber'', JString vendor)]))))"

definition downloadFinanceReport ::
  "platform \<Rightarrow> instant \<Rightarrow> jsstring option \<Rightarrow> world \<Rightarrow> finance_args
   \<Rightarrow> world \<times> (error + jsstring)" where
  "downloadFinanceReport P currentDate config_vendor w args =
     (case resolve_vendor (fin_vendorNumber args) config_vendor of
        None \<Rightarrow> (w, Inl (Error vendor_required))
      | Some vendor \<Rightarrow>
     if vendor = [] then (w, Inl (Error vendor_required))
     else
     (case validateRequired P
             [(js ''reportDate'', Some (JString (fin_reportDate args))),
              (js ''regionCode'', Some (JString (regionCode args)))]
             [js ''reportDate'', js ''regionCode''] of
        Some m \<Rightarrow> (w, Inl (Error m))
      | None \<Rightarrow>
     if \<not> datePattern_test (fin_reportDate args)
     then (w, Inl (Error date_format_required))
     else if in_future currentDate (fin_reportDate args)
     then (w, Inl (Error (future_finance_date (fin_reportDate args))))
     else downloadReport P w (js ''/financeReports'')
            (Some (buildFilterParams P
               [(js ''reportDate'', JString (fin_reportDate args)),
                (js ''regionCode'', JString (regionCode args)),
                (js ''vendorNumber'', JString vendor)]))))"

text \<open>
  The text \<open>YYYY-MM\<close> of a year below 10000 and a month below 100, for stating what
  the handlers do with a given year and month.
\<close>

definition four_digits :: "nat \<Rightarrow> jsstring" where
  "four_digits y =
     [48 + y div 1000 mod 10, 48 + y div 100 mod 10, 48 + y div 10 mod 10, 48 + y mod 10]"

definition two_digits :: "nat \<Rightarrow> jsstring" where
  "two_digits m = [48 + m div 10 mod 10, 48 + m mod 10]"

definition date_text :: "nat \<Rightarrow> nat \<Rightarrow> jsstring" where
  "date_text y m = four_digits y @ [45] @ two_digits m"

section \<open>Example inputs\<close>

text \<open>
  Concrete inputs for the instances below. The three gzip buffers are the compressed forms
  of \<open>hello\<close>, of the empty text and of \<open>a\<close>, NUL, \<open>b\<close>; on them the example platform
  decompresses as zlib does. It decodes bytes below 128 as UTF-8 does, parses the one JSON
  error document used below, accepts every argument list and passes filters on unchanged.
\<close>

definition bytes :: "string \<Rightarrow> buffer" where
  "bytes s = map of_char s"

definition gz_hello :: buffer where
  "gz_hello = [0x1f, 0x8b, 0x08, 0x00, 0x00, 0x00, 0x00, 0x00, 0x00, 0xff, 0xcb, 0x48, 0xcd,
               0xc9, 0xc9, 0x07, 0x00, 0x86, 0xa6, 0x10, 0x36, 0x05, 0x00, 0x00, 0x00]"

definition gz_empty :: buffer where
  "gz_empty = [0x1f, 0x8b, 0x08, 0x00, 0x00, 0x00, 0x00, 0x00, 0x00, 0xff, 0x03, 0x00, 0x00,
               0x00, 0x00, 0x00, 0x00, 0x00, 0x00, 0x00]"

definition gz_nul :: buffer where
  "gz_nul = [0x1f, 0x8b, 0x08, 0x00, 0x00, 0x00, 0x00, 0x00, 0x00, 0xff, 0x4b, 0x64, 0x48,
             0x02, 0x00, 0x71, 0x78, 0xe8, 0x15, 0x03, 0x00, 0x00, 0x00]"

definition errors_list_text :: string where
  \<open>errors_list_text = ''[{"status":"403"}]''\<close>

definition errors_text :: string where
  \<open>errors_text = ''{"errors":'' @ errors_list_text @ ''}''\<close>

definition errors_json :: json where
  "errors_json = JArray [JObject [(js ''status'', JString (js ''403''))]]"

definition example_platform :: platform where
  "example_platform =
     \<lparr>generateToken = Inr (js ''token''),
      axios_request = (\<lambda>cfg. Inr (BufferData gz_hello)),
      gunzipSync = (\<lambda>buf. if buf = gz_hello then Inr (bytes ''hello'')
                          else if buf = gz_empty then Inr []
                          else if buf = gz_nul then Inr [0x61, 0x00, 0x62]
                          else Inl (js ''unexpected end of file'')),
      toString_utf8 = map unat,
      Buffer_from = (\<lambda>v. Inl (js ''The first argument must be of type string or an instance of Buffer'')),
      JSON_parse = (\<lambda>s. if s = js errors_text
                         then Inr (JObject [(js ''errors'', errors_json)])
                         else Inl (js ''Unexpected token'')),
      JSON_stringify = (\<lambda>v. if v = errors_json then js errors_list_text else js ''null''),
      tmpdir = js ''/tmp'',
      validateRequired = (\<lambda>params fields. None),
      buildFilterParams = (\<lambda>filters. filters)\<rparr>"

definition empty_world :: world where
  "empty_world =
     \<lparr>files = Map.empty, write_fault = (\<lambda>p. None), read_fault = (\<lambda>p. None),
      unlink_fault = (\<lambda>p. None), calls = []\<rparr>"

text \<open>
  The empty world in which removing the staged \<open>.gz\<close> file of the example request fails
  and no other operation does.
\<close>

definition gz_locked_world :: world where
  "gz_locked_world =
     empty_world\<lparr>unlink_fault :=
       (\<lambda>p. if p = js ''/tmp/apple_report_1730000000000_42.gz''
            then Some (js ''EPERM: operation not permitted, unlink'') else None)\<rparr>"

text \<open>November 2026, ten seconds into the month.\<close>

definition example_now :: instant where
  "example_now = \<lparr>month_number = 12 * 2026 + 10, ms_in_month = 10000\<rparr>"

section \<open>Auxiliary facts\<close>

subsection \<open>What the file operations and the clients leave unchanged\<close>

lemma writeFileSync_frame:
  "writeFileSync w p b = Inr w' \<Longrightarrow>
     calls w' = calls w \<and> unlink_fault w' = unlink_fault w \<and> write_fault w' = write_fault w \<and>
     read_fault w' = read_fault w \<and> files w' = (files w)(p \<mapsto> b)"
  by (auto simp: writeFileSync_def split: option.splits)

lemma unlinkSync_frame:
  "unlinkSync w p = Inr w' \<Longrightarrow>
     calls w' = calls w \<and> unlink_fault w' = unlink_fault w \<and> write_fault w' = write_fault w \<and>
     read_fault w' = read_fault w \<and> files w' = (files w)(p := None)"
  by (auto simp: unlinkSync_def split: option.splits)

lemma cleanup_after_success_frame:
  "calls (cleanup_after_success w gz txt) = calls w \<and>
   unlink_fault (cleanup_after_success w gz txt) = unlink_fault w"
  by (auto simp: cleanup_after_success_def split: sum.splits dest!: unlinkSync_frame)

lemma cleanup_after_error_frame:
  "calls (cleanup_after_error w gz txt) = calls w \<and>
   unlink_fault (cleanup_after_error w gz txt) = unlink_fault w"
  by (auto simp: cleanup_after_error_def split: sum.splits if_splits dest!: unlinkSync_frame)

lemma stage_and_decompress_frame:
  "calls (fst (stage_and_decompress P w gz txt buf)) = calls w \<and>
   unlink_fault (fst (stage_and_decompress P w gz txt buf)) = unlink_fault w"
  by (auto simp: stage_and_decompress_def Let_def cleanup_after_success_frame
      split: sum.splits dest!: writeFileSync_frame)

lemma decompress_staged_calls:
  "calls (fst (decompress_staged P ts r w buf)) = calls w"
proof -
  obtain w' res where s: "stage_and_decompress P w (tempGzPath P ts r) (tempTxtPath P ts r) buf = (w', res)"
    by (cases "stage_and_decompress P w (tempGzPath P ts r) (tempTxtPath P ts r) buf")
  have "calls w' = calls w"
    using stage_and_decompress_frame [of P w "tempGzPath P ts r" "tempTxtPath P ts r" buf] s by simp
  then show ?thesis
    using s by (cases res) (simp_all add: decompress_staged_def Let_def cleanup_after_error_frame)
qed

lemma report_response_calls:
  "calls (fst (report_response P ts r w d)) = calls w"
  by (cases d) (simp_all add: report_response_def decompress_staged_calls)

lemma request_calls:
  "calls (fst (request P ts r w method url data params)) =
     calls w @ TokenCall #
       (case generateToken P of
          Inl e \<Rightarrow> []
        | Inr token \<Rightarrow> [HttpCall (request_config token method url data params)])"
  by (simp add: request_def call_generateToken_def call_axios_def report_response_calls
      split: sum.splits)

lemma downloadReport_calls:
  "calls (fst (downloadReport P w url params)) =
     calls w @ TokenCall #
       (case generateToken P of
          Inl e \<Rightarrow> []
        | Inr token \<Rightarrow> [HttpCall (downloadReport_config token url params)])"
  by (simp add: downloadReport_def call_generateToken_def call_axios_def
      split: sum.splits response_data.splits)

subsection \<open>The request headers and the branch for plain text\<close>

lemma request_accept:
  "map_of (request_headers token url) (js ''Accept'') =
     (if isReportEndpoint url then Some (js ''application/a-gzip, application/json'') else None)"
  by (simp add: request_headers_def js_def)

lemma plain_report_total: "plain_report P buf = Inr (ReportData (toString_utf8 P buf))"
  by (simp add: plain_report_def Let_def split: sum.splits)

subsection \<open>The staged decompression\<close>

lemma temp_paths_distinct: "tempGzPath P ts r \<noteq> tempTxtPath P ts r"
  by (simp add: tempGzPath_def tempTxtPath_def js_def)

lemma stage_success:
  assumes "stage_and_decompress P w gz txt buf = (w', Inr csv)"
  shows "\<exists>d. gunzipSync P buf = Inr d \<and> csv = toString_utf8 P d \<and> csv \<noteq> [] \<and>
             \<not> str_includes csv [0]"
  using assms
  by (auto simp: stage_and_decompress_def Let_def writeFileSync_def readFileSync_def
      split: sum.splits option.splits if_splits)

lemma stage_outcome:
  assumes "gunzipSync P buf = Inr d"
    and "write_fault w gz = None" and "write_fault w txt = None" and "read_fault w txt = None"
  shows "snd (stage_and_decompress P w gz txt buf) =
           (if toString_utf8 P d = [] \<or> str_includes (toString_utf8 P d) [0]
            then Inl (js ''Decompressed data contains invalid characters'')
            else Inr (toString_utf8 P d))"
  using assms
  by (simp add: stage_and_decompress_def Let_def writeFileSync_def readFileSync_def)

lemma stage_unlink_independent:
  "snd (stage_and_decompress P (w\<lparr>unlink_fault := f\<rparr>) gz txt buf) =
   snd (stage_and_decompress P w gz txt buf)"
  by (cases "write_fault w gz"; cases "gunzipSync P buf"; cases "write_fault w txt";
      cases "read_fault w txt")
     (simp_all add: stage_and_decompress_def Let_def writeFileSync_def readFileSync_def)

lemma decompress_staged_snd:
  "snd (decompress_staged P ts r w buf) =
     (case snd (stage_and_decompress P w (tempGzPath P ts r) (tempTxtPath P ts r) buf) of
        Inl m \<Rightarrow> Inl (Error (js ''Failed to decompress report data: '' @ m))
      | Inr csv \<Rightarrow> Inr (ReportData csv))"
  by (cases "stage_and_decompress P w (tempGzPath P ts r) (tempTxtPath P ts r) buf")
     (simp add: decompress_staged_def Let_def split: sum.splits)

lemma cleanup_after_error_removes:
  assumes "unlink_fault w gz = None" and "unlink_fault w txt = None"
  shows "files (cleanup_after_error w gz txt) gz = None \<and>
         files (cleanup_after_error w gz txt) txt = None"
  using assms
  by (auto simp: cleanup_after_error_def existsSync_def unlinkSync_def split: option.splits)

lemma cleanup_after_success_removes:
  assumes "unlink_fault w gz = None" and "unlink_fault w txt = None"
    and "files w gz \<noteq> None" and "files w txt \<noteq> None" and "gz \<noteq> txt"
  shows "files (cleanup_after_success w gz txt) gz = None \<and>
         files (cleanup_after_success w gz txt) txt = None"
  using assms
  by (auto simp: cleanup_after_success_def unlinkSync_def split: option.splits)

lemma stage_success_removes:
  assumes "stage_and_decompress P w gz txt buf = (w', Inr csv)"
    and "unlink_fault w gz = None" and "unlink_fault w txt = None" and "gz \<noteq> txt"
  shows "files w' gz = None \<and> files w' txt = None"
proof -
  from assms(1) obtain w1 d w2 where
    w1: "writeFileSync w gz buf = Inr w1" and
    w2: "writeFileSync w1 txt d = Inr w2" and
    w': "w' = cleanup_after_success w2 gz txt"
    by (auto simp: stage_and_decompress_def Let_def split: sum.splits if_splits)
  from writeFileSync_frame [OF w1] writeFileSync_frame [OF w2] assms(4)
  have "files w2 gz \<noteq> None" "files w2 txt \<noteq> None"
    "unlink_fault w2 gz = unlink_fault w gz" "unlink_fault w2 txt = unlink_fault w txt"
    by simp_all
  with assms(2,3,4) show ?thesis
    unfolding w' by (intro cleanup_after_success_removes) simp_all
qed

lemma decompress_staged_removes:
  assumes "unlink_fault w (tempGzPath P ts r) = None"
    and "unlink_fault w (tempTxtPath P ts r) = None"
  shows "files (fst (decompress_staged P ts r w buf)) (tempGzPath P ts r) = None \<and>
         files (fst (decompress_staged P ts r w buf)) (tempTxtPath P ts r) = None"
proof -
  let ?gz = "tempGzPath P ts r" and ?txt = "tempTxtPath P ts r"
  obtain w' res where s: "stage_and_decompress P w ?gz ?txt buf = (w', res)"
    by (cases "stage_and_decompress P w ?gz ?txt buf")
  show ?thesis
  proof (cases res)
    case (Inl m)
    have "unlink_fault w' = unlink_fault w"
      using stage_and_decompress_frame [of P w ?gz ?txt buf] s by simp
    with assms have "files (cleanup_after_error w' ?gz ?txt) ?gz = None \<and>
         files (cleanup_after_error w' ?gz ?txt) ?txt = None"
      by (intro cleanup_after_error_removes) simp_all
    with s Inl show ?thesis by (simp add: decompress_staged_def Let_def)
  next
    case (Inr csv)
    with s have "files w' ?gz = None \<and> files w' ?txt = None"
      using stage_success_removes [of P w ?gz ?txt buf w' csv] assms temp_paths_distinct
      by simp
    with s Inr show ?thesis by (simp add: decompress_staged_def Let_def)
  qed
qed

lemma stage_result:
  "snd (stage_and_decompress P w gz txt buf) =
     (case write_fault w gz of
        Some m \<Rightarrow> Inl m
      | None \<Rightarrow>
     (case gunzipSync P buf of
        Inl m \<Rightarrow> Inl m
      | Inr d \<Rightarrow>
     (case write_fault w txt of
        Some m \<Rightarrow> Inl m
      | None \<Rightarrow>
     (case read_fault w txt of
        Some m \<Rightarrow> Inl m
      | None \<Rightarrow>
          if toString_utf8 P d = [] \<or> str_includes (toString_utf8 P d) [0]
          then Inl (js ''Decompressed data contains invalid characters'')
          else Inr (toString_utf8 P d)))))"
  by (cases "write_fault w gz"; cases "gunzipSync P buf"; cases "write_fault w txt";
      cases "read_fault w txt")
     (simp_all add: stage_and_decompress_def Let_def writeFileSync_def readFileSync_def)

lemma cleanup_after_error_removes_gz:
  assumes "unlink_fault w gz = None"
  shows "files (cleanup_after_error w gz txt) gz = None"
  using assms
  by (auto simp: cleanup_after_error_def existsSync_def unlinkSync_def split: option.splits)

lemma cleanup_after_success_removes_gz:
  assumes "unlink_fault w gz = None" and "files w gz \<noteq> None"
  shows "files (cleanup_after_success w gz txt) gz = None"
  using assms
  by (auto simp: cleanup_after_success_def unlinkSync_def split: option.splits)

lemma stage_success_removes_gz:
  assumes "stage_and_decompress P w gz txt buf = (w', Inr csv)"
    and "unlink_fault w gz = None"
  shows "files w' gz = None"
proof -
  from assms(1) obtain w1 d w2 where
    w1: "writeFileSync w gz buf = Inr w1" and
    w2: "writeFileSync w1 txt d = Inr w2" and
    w': "w' = cleanup_after_success w2 gz txt"
    by (auto simp: stage_and_decompress_def Let_def split: sum.splits if_splits)
  from writeFileSync_frame [OF w1] writeFileSync_frame [OF w2]
  have "files w2 gz \<noteq> None" "unlink_fault w2 gz = unlink_fault w gz"
    by simp_all
  with assms(2) show ?thesis
    unfolding w' by (intro cleanup_after_success_removes_gz) simp_all
qed

lemma decompress_staged_removes_gz:
  assumes "unlink_fault w (tempGzPath P ts r) = None"
  shows "files (fst (decompress_staged P ts r w buf)) (tempGzPath P ts r) = None"
proof -
  let ?gz = "tempGzPath P ts r" and ?txt = "tempTxtPath P ts r"
  obtain w' res where s: "stage_and_decompress P w ?gz ?txt buf = (w', res)"
    by (cases "stage_and_decompress P w ?gz ?txt buf")
  show ?thesis
  proof (cases res)
    case (Inl m)
    have "unlink_fault w' = unlink_fault w"
      using stage_and_decompress_frame [of P w ?gz ?txt buf] s by simp
    with assms have "files (cleanup_after_error w' ?gz ?txt) ?gz = None"
      by (intro cleanup_after_error_removes_gz) simp
    with s Inl show ?thesis by (simp add: decompress_staged_def Let_def)
  next
    case (Inr csv)
    with s have "files w' ?gz = None"
      using stage_success_removes_gz [of P w ?gz ?txt buf w' csv] assms by simp
    with s Inr show ?thesis by (simp add: decompress_staged_def Let_def)
  qed
qed

subsection \<open>Report dates\<close>

lemma mod_10_digit: "is_digit (48 + x mod 10)"
proof -
  have "x mod 10 < 10" by simp
  then show ?thesis unfolding is_digit_def by linarith
qed

lemma datePattern_date_text: "datePattern_test (date_text y m)"
  by (simp add: date_text_def four_digits_def two_digits_def mod_10_digit)

lemma split_date_text: "split_on 45 (date_text y m) = [four_digits y, two_digits m]"
  by (simp add: date_text_def four_digits_def two_digits_def)

lemma four_digits_value:
  assumes a: "(y::nat) < 10000"
  shows "1000 * (y div 1000 mod 10) + 100 * (y div 100 mod 10) +
        10 * (y div 10 mod 10) + y mod 10 = y"
proof -
  define r0 where "r0 = y mod 10"
  define q1 where "q1 = y div 10"
  define r1 where "r1 = q1 mod 10"
  define q2 where "q2 = q1 div 10"
  define r2 where "r2 = q2 mod 10"
  define q3 where "q3 = q2 div 10"
  have 1: "y = 10 * q1 + r0" unfolding q1_def r0_def by simp
  have 2: "q1 = 10 * q2 + r1" unfolding q2_def r1_def by simp
  have 3: "q2 = 10 * q3 + r2" unfolding q3_def r2_def by simp
  have e2: "y div 100 = q2" unfolding q2_def q1_def by (simp add: div_mult2_eq)
  have e3: "y div 1000 = q3" unfolding q3_def q2_def q1_def by (simp add: div_mult2_eq)
  have "q3 < 10"
  proof (rule ccontr)
    assume "\<not> q3 < 10"
    then have "10 \<le> q3" by simp
    with 1 2 3 have "10000 \<le> y" by linarith
    with a show False by simp
  qed
  then have 5: "q3 mod 10 = q3" by simp
  have "1000 * q3 + 100 * r2 + 10 * r1 + r0 = y"
    using 1 2 3 by linarith
  then show ?thesis
    unfolding e3 e2 5 r2_def [symmetric] q1_def [symmetric] r1_def [symmetric] r0_def [symmetric] .
qed

lemma two_digits_value:
  assumes "(m::nat) < 100"
  shows "10 * (m div 10 mod 10) + m mod 10 = m"
proof -
  from assms have "m div 10 < 10" by simp
  then have "m div 10 mod 10 = m div 10" by simp
  then show ?thesis by simp
qed

lemma Number_of_digits4:
  assumes "is_digit (48 + a)" and "is_digit (48 + b)" and "is_digit (48 + c)" and "is_digit (48 + d)"
  shows "Number_of [48 + a, 48 + b, 48 + c, 48 + d] = Some (int (1000 * a + 100 * b + 10 * c + d))"
  using assms by (simp add: Number_of_def)

lemma Number_of_digits2:
  assumes "is_digit (48 + a)" and "is_digit (48 + b)"
  shows "Number_of [48 + a, 48 + b] = Some (int (10 * a + b))"
  using assms by (simp add: Number_of_def)

lemma Number_of_four_digits:
  assumes "y < 10000"
  shows "Number_of (four_digits y) = Some (int y)"
  unfolding four_digits_def
  by (subst Number_of_digits4) (simp_all only: mod_10_digit four_digits_value [OF assms])

lemma Number_of_two_digits:
  assumes "m < 100"
  shows "Number_of (two_digits m) = Some (int m)"
  unfolding two_digits_def
  by (subst Number_of_digits2) (simp_all only: mod_10_digit two_digits_value [OF assms])

lemma in_future_date_text:
  assumes "y < 10000" and "m < 100"
  shows "in_future now (date_text y m) = instant_gt (new_Date (int y) (int m - 1)) now"
  using assms by (simp add: in_future_def split_date_text Number_of_four_digits Number_of_two_digits)

lemma instant_gt_month:
  assumes "1 \<le> m" and "m \<le> 12" and "1 \<le> cm" and "cm \<le> 12" and "2000 \<le> cy"
    and "month_number now = 12 * int cy + int cm - 1"
  shows "instant_gt (new_Date (int y) (int m - 1)) now \<longleftrightarrow> cy < y \<or> (y = cy \<and> cm < m)"
proof (cases "y \<le> 99")
  case True
  with assms show ?thesis by (simp add: instant_gt_def new_Date_def)
next
  case False
  with assms show ?thesis by (auto simp: instant_gt_def new_Date_def)
qed

subsection \<open>The example inputs\<close>

lemma example_gzip: "is_gzip gz_hello" "is_gzip gz_empty" "is_gzip gz_nul"
  by (simp_all add: is_gzip_def gz_hello_def gz_empty_def gz_nul_def)

lemma example_gunzip:
  "gunzipSync example_platform gz_hello = Inr (bytes ''hello'')"
  "gunzipSync example_platform gz_empty = Inr []"
  "gunzipSync example_platform gz_nul = Inr [0x61, 0x00, 0x62]"
  by (simp_all add: example_platform_def gz_hello_def gz_empty_def gz_nul_def)

lemma example_toString:
  "toString_utf8 example_platform (bytes ''hello'') = js ''hello''"
  "toString_utf8 example_platform [] = []"
  "toString_utf8 example_platform [0x61, 0x00, 0x62] = [97, 0, 98]"
  by (simp_all add: example_platform_def bytes_def js_def)

lemma example_no_faults:
  "write_fault empty_world p = None" "read_fault empty_world p = None"
  "unlink_fault empty_world p = None"
  by (simp_all add: empty_world_def)

lemma example_paths:
  "tempGzPath example_platform 1730000000000 42 = js ''/tmp/apple_report_1730000000000_42.gz''"
  "tempTxtPath example_platform 1730000000000 42 = js ''/tmp/apple_report_1730000000000_42.txt''"
  by (simp_all add: tempGzPath_def tempTxtPath_def temp_stem_def example_platform_def
      digits.simps js_def)

lemma example_hello_staged:
  "snd (report_response example_platform 1730000000000 42 empty_world (BufferData gz_hello)) =
     Inr (ReportData (js ''hello''))"
  using example_gzip(1)
  by (simp add: report_response_def decompress_staged_snd
      stage_outcome [OF example_gunzip(1) example_no_faults(1) example_no_faults(1) example_no_faults(2)]
      example_toString js_def)

lemma example_hello_direct: "decode_report example_platform gz_hello = Inr (js ''hello'')"
  using example_gzip(1) by (simp add: decode_report_def example_gunzip example_toString)

lemma example_dates:
  "date_text 2099 1 = js ''2099-01''" "date_text 2024 1 = js ''2024-01''"
  by (simp_all add: date_text_def four_digits_def two_digits_def js_def)

section \<open>The claims\<close>

text \<open>
  Claim C1. A report response that is not gzipped and whose text is a JSON document with an
  \<open>errors\<close> field should make \<open>request\<close> fail with an API error carrying the error list.
  In the code the error is thrown inside the \<open>try\<close> block whose \<open>catch\<close> is empty, so it
  never leaves the block: on the error document below the check throws
  \<open>API Error: [{"status":"403"}]\<close>, and \<open>request\<close> returns the document as report text.
\<close>

theorem api_error_swallowed:
  "\<not> is_gzip (bytes errors_text) \<and>
   toString_utf8 example_platform (bytes errors_text) = js errors_text \<and>
   startsWith (trim (js errors_text)) (js ''{'') \<and>
   JSON_parse example_platform (js errors_text) = Inr (JObject [(js ''errors'', errors_json)]) \<and>
   api_error_check example_platform (js errors_text) = Inl (js ''API Error: '' @ js errors_list_text) \<and>
   snd (request (example_platform\<lparr>axios_request := \<lambda>cfg. Inr (BufferData (bytes errors_text))\<rparr>)
          1730000000000 42 empty_world GET (js ''/salesReports'') None None) =
     Inr (ReportData (js errors_text))"
proof -
  have a: "\<not> is_gzip (bytes errors_text)"
    by (simp add: is_gzip_def bytes_def errors_text_def)
  have t: "toString_utf8 example_platform (bytes errors_text) = js errors_text"
    by (simp add: example_platform_def bytes_def js_def errors_text_def errors_list_text_def)
  have b: "startsWith (trim (js errors_text)) (js ''{'')"
    by (simp add: startsWith_def trim_def is_js_space_def js_def errors_text_def errors_list_text_def)
  have c: "JSON_parse example_platform (js errors_text) = Inr (JObject [(js ''errors'', errors_json)])"
    by (simp add: example_platform_def)
  have d: "api_error_check example_platform (js errors_text) = Inl (js ''API Error: '' @ js errors_list_text)"
    by (simp add: api_error_check_def example_platform_def errors_json_def)
  have r: "isReportEndpoint (js ''/salesReports'')"
    by (simp add: isReportEndpoint_def js_def)
  have e: "snd (request (example_platform\<lparr>axios_request := \<lambda>cfg. Inr (BufferData (bytes errors_text))\<rparr>)
          1730000000000 42 empty_world GET (js ''/salesReports'') None None) =
     Inr (ReportData (js errors_text))"
    using a r t
    by (simp add: request_def call_generateToken_def call_axios_def report_response_def
        plain_report_total example_platform_def)
  from a t b c d e show ?thesis by blast
qed

text \<open>
  Claim C2, as stated, fails: a buffer with the gzip magic number is not always answered
  with its decompressed text. The staging client rejects the valid gzip buffer of the text
  \<open>a\<close>, NUL, \<open>b\<close>, and the in-memory client fails on the two magic bytes alone, which
  zlib cannot decompress.
\<close>

theorem gzip_rejected_counterexample:
  "is_gzip gz_nul \<and>
   gunzipSync example_platform gz_nul = Inr [0x61, 0x00, 0x62] \<and>
   toString_utf8 example_platform [0x61, 0x00, 0x62] = [97, 0, 98] \<and>
   snd (report_response example_platform 1730000000000 42 empty_world (BufferData gz_nul)) =
     Inl (Error (js ''Failed to decompress report data: '' @
                 js ''Decompressed data contains invalid characters'')) \<and>
   is_gzip [0x1f, 0x8b] \<and>
   decode_report example_platform [0x1f, 0x8b] = Inl (Error (js ''unexpected end of file''))"
proof -
  have a: "snd (report_response example_platform 1730000000000 42 empty_world (BufferData gz_nul)) =
     Inl (Error (js ''Failed to decompress report data: '' @
                 js ''Decompressed data contains invalid characters''))"
    using example_gzip(3)
    by (simp add: report_response_def decompress_staged_snd
      stage_outcome [OF example_gunzip(3) example_no_faults(1) example_no_faults(1) example_no_faults(2)]
      example_toString)
  have b: "is_gzip [0x1f, 0x8b]" by (simp add: is_gzip_def)
  have c: "decode_report example_platform [0x1f, 0x8b] = Inl (Error (js ''unexpected end of file''))"
    using b by (simp add: decode_report_def example_platform_def gz_hello_def gz_empty_def gz_nul_def)
  from a b c example_gzip(3) example_gunzip(3) example_toString(3) show ?thesis by blast
qed

text \<open>
  Claim C2, amended. For a buffer with the gzip magic number the raw bytes are never
  returned. The in-memory client returns the decompressed bytes decoded as text, or fails
  with the error of \<open>gunzipSync\<close>. The staging client fails with
  \<open>Failed to decompress report data:\<close> followed by the message of the first step that
  fails (writing the \<open>.gz\<close> file, \<open>gunzipSync\<close>, writing the \<open>.txt\<close> file, reading it
  back), or by \<open>Decompressed data contains invalid characters\<close> when the text read back is
  empty or contains a NUL character; otherwise it returns the decompressed bytes decoded as
  text.
\<close>

theorem gzip_never_raw:
  assumes "is_gzip buf"
  shows "decode_report P buf =
           (case gunzipSync P buf of
              Inl m \<Rightarrow> Inl (Error m)
            | Inr d \<Rightarrow> Inr (toString_utf8 P d))
    \<and> snd (report_response P ts r w (BufferData buf)) =
        (case write_fault w (tempGzPath P ts r) of
           Some m \<Rightarrow> Inl (Error (js ''Failed to decompress report data: '' @ m))
         | None \<Rightarrow>
        (case gunzipSync P buf of
           Inl m \<Rightarrow> Inl (Error (js ''Failed to decompress report data: '' @ m))
         | Inr d \<Rightarrow>
        (case write_fault w (tempTxtPath P ts r) of
           Some m \<Rightarrow> Inl (Error (js ''Failed to decompress report data: '' @ m))
         | None \<Rightarrow>
        (case read_fault w (tempTxtPath P ts r) of
           Some m \<Rightarrow> Inl (Error (js ''Failed to decompress report data: '' @ m))
         | None \<Rightarrow>
             if toString_utf8 P d = [] \<or> str_includes (toString_utf8 P d) [0]
             then Inl (Error (js ''Failed to decompress report data: '' @
                              js ''Decompressed data contains invalid characters''))
             else Inr (ReportData (toString_utf8 P d))))))"
  using assms
  by (simp add: decode_report_def report_response_def decompress_staged_snd stage_result
      split: option.splits sum.splits)

text \<open>
  An instance of C2: the gzip buffer of \<open>hello\<close>.
\<close>

theorem gzip_never_raw_witness:
  "is_gzip gz_hello \<and>
   decode_report example_platform gz_hello = Inr (js ''hello'') \<and>
   snd (report_response example_platform 1730000000000 42 empty_world (BufferData gz_hello)) =
     Inr (ReportData (js ''hello'')) \<and>
   gunzipSync example_platform gz_hello = Inr (bytes ''hello'') \<and>
   toString_utf8 example_platform (bytes ''hello'') = js ''hello''"
proof -
  have ne: "js ''hello'' \<noteq> []" "\<not> str_includes (js ''hello'') [0]"
    by (simp_all add: js_def)
  show ?thesis
    using example_gzip(1) ne
      gzip_never_raw [OF example_gzip(1), of example_platform 1730000000000 42 empty_world]
    by (simp add: example_gunzip(1) example_toString(1) example_no_faults)
qed

text \<open>
  Claim C3, as stated, fails: the two removals share one \<open>try\<close> block, so when removing
  the \<open>.gz\<close> file fails the removal of the \<open>.txt\<close> file is never attempted. On the gzip
  buffer of \<open>hello\<close>, with only the removal of the \<open>.gz\<close> file failing, the request
  returns \<open>hello\<close> and the \<open>.txt\<close> file is still there.
\<close>

theorem staged_file_left_counterexample:
  "is_gzip gz_hello \<and>
   unlink_fault gz_locked_world (tempGzPath example_platform 1730000000000 42) =
     Some (js ''EPERM: operation not permitted, unlink'') \<and>
   unlink_fault gz_locked_world (tempTxtPath example_platform 1730000000000 42) = None \<and>
   snd (report_response example_platform 1730000000000 42 gz_locked_world
          (BufferData gz_hello)) = Inr (ReportData (js ''hello'')) \<and>
   files (fst (report_response example_platform 1730000000000 42 gz_locked_world
                 (BufferData gz_hello)))
     (tempTxtPath example_platform 1730000000000 42) = Some (bytes ''hello'')"
proof -
  have a: "unlink_fault gz_locked_world (tempTxtPath example_platform 1730000000000 42) = None"
    by (simp add: example_paths gz_locked_world_def js_def)
  have g: "unlink_fault gz_locked_world (tempGzPath example_platform 1730000000000 42) =
     Some (js ''EPERM: operation not permitted, unlink'')"
    by (simp add: example_paths gz_locked_world_def)
  have w: "write_fault gz_locked_world p = None" "read_fault gz_locked_world p = None" for p
    by (simp_all add: gz_locked_world_def empty_world_def)
  have b: "snd (report_response example_platform 1730000000000 42 gz_locked_world
          (BufferData gz_hello)) = Inr (ReportData (js ''hello''))"
    using example_gzip(1)
    by (simp add: report_response_def decompress_staged_snd stage_result w
        example_gunzip(1) example_toString(1) js_def)
  have c: "files (fst (report_response example_platform 1730000000000 42 gz_locked_world
                 (BufferData gz_hello)))
     (tempTxtPath example_platform 1730000000000 42) = Some (bytes ''hello'')"
    using example_gzip(1)
    by (simp add: report_response_def decompress_staged_def stage_and_decompress_def
        cleanup_after_success_def writeFileSync_def readFileSync_def unlinkSync_def
        example_paths example_gunzip(1) example_toString(1) gz_locked_world_def
        empty_world_def Let_def js_def)
  from example_gzip(1) g a b c show ?thesis by blast
qed

text \<open>
  Claim C3, amended. After a decompression attempt on a gzip buffer, whichever way it ends,
  the \<open>.gz\<close> file does not exist if its removal does not fail, and the \<open>.txt\<close> file does
  not exist if neither removal fails; and the outcome of the operation is the same whatever
  removals fail.
\<close>

theorem staged_files_removed:
  assumes "is_gzip buf"
  shows "(unlink_fault w (tempGzPath P ts r) = None \<longrightarrow>
            files (fst (report_response P ts r w (BufferData buf))) (tempGzPath P ts r) = None)
       \<and> (unlink_fault w (tempGzPath P ts r) = None \<and>
          unlink_fault w (tempTxtPath P ts r) = None \<longrightarrow>
            files (fst (report_response P ts r w (BufferData buf))) (tempTxtPath P ts r) = None)
       \<and> snd (report_response P ts r (w\<lparr>unlink_fault := f\<rparr>) (BufferData buf)) =
           snd (report_response P ts r w (BufferData buf))"
  using assms
  by (simp add: report_response_def decompress_staged_removes decompress_staged_removes_gz
      decompress_staged_snd stage_unlink_independent)

text \<open>
  An instance of C3: the gzip buffer of \<open>hello\<close>, and the same request with every
  removal failing.
\<close>

theorem staged_files_removed_witness:
  "is_gzip gz_hello \<and>
   unlink_fault empty_world (tempGzPath example_platform 1730000000000 42) = None \<and>
   unlink_fault empty_world (tempTxtPath example_platform 1730000000000 42) = None \<and>
   files (fst (report_response example_platform 1730000000000 42 empty_world (BufferData gz_hello)))
     (tempGzPath example_platform 1730000000000 42) = None \<and>
   files (fst (report_response example_platform 1730000000000 42 empty_world (BufferData gz_hello)))
     (tempTxtPath example_platform 1730000000000 42) = None \<and>
   snd (report_response example_platform 1730000000000 42
          (empty_world\<lparr>unlink_fault := \<lambda>p. Some (js ''EPERM: operation not permitted'')\<rparr>)
          (BufferData gz_hello)) =
   snd (report_response example_platform 1730000000000 42 empty_world (BufferData gz_hello))"
proof -
  have u: "unlink_fault empty_world (tempGzPath example_platform 1730000000000 42) = None"
    "unlink_fault empty_world (tempTxtPath example_platform 1730000000000 42) = None"
    by (rule example_no_faults)+
  note t = staged_files_removed [OF example_gzip(1), of empty_world example_platform
      1730000000000 42 "\<lambda>p. Some (js ''EPERM: operation not permitted'')"]
  from t u have "files (fst (report_response example_platform 1730000000000 42 empty_world
      (BufferData gz_hello))) (tempGzPath example_platform 1730000000000 42) = None"
    by (simp only: simp_thms)
  moreover from t u have "files (fst (report_response example_platform 1730000000000 42
      empty_world (BufferData gz_hello))) (tempTxtPath example_platform 1730000000000 42) = None"
    by (simp only: simp_thms)
  moreover from t have "snd (report_response example_platform 1730000000000 42
          (empty_world\<lparr>unlink_fault := \<lambda>p. Some (js ''EPERM: operation not permitted'')\<rparr>)
          (BufferData gz_hello)) =
   snd (report_response example_platform 1730000000000 42 empty_world (BufferData gz_hello))"
    by (rule conjunct2 [THEN conjunct2])
  ultimately show ?thesis using example_gzip(1) u by (intro conjI)
qed

text \<open>
  Claim C4. When the staging client and the in-memory client both succeed on a gzip
  buffer, they return the same text.
\<close>

theorem staged_equals_in_memory:
  assumes "is_gzip buf"
    and "snd (report_response P ts r w (BufferData buf)) = Inr (ReportData staged)"
    and "decode_report P buf = Inr direct"
  shows "staged = direct"
proof -
  from assms(1,2) have
    "snd (stage_and_decompress P w (tempGzPath P ts r) (tempTxtPath P ts r) buf) = Inr staged"
    by (simp add: report_response_def decompress_staged_snd split: sum.splits)
  then obtain w' where
    "stage_and_decompress P w (tempGzPath P ts r) (tempTxtPath P ts r) buf = (w', Inr staged)"
    by (cases "stage_and_decompress P w (tempGzPath P ts r) (tempTxtPath P ts r) buf") simp
  from stage_success [OF this] obtain d where
    "gunzipSync P buf = Inr d" and "staged = toString_utf8 P d" by blast
  with assms(1,3) show ?thesis by (simp add: decode_report_def)
qed

text \<open>
  An instance of C4: both clients return \<open>hello\<close>.
\<close>

theorem staged_equals_in_memory_witness:
  "is_gzip gz_hello \<and>
   snd (report_response example_platform 1730000000000 42 empty_world (BufferData gz_hello)) =
     Inr (ReportData (js ''hello'')) \<and>
   decode_report example_platform gz_hello = Inr (js ''hello'') \<and>
   js ''hello'' = js ''hello''"
  using example_gzip(1) example_hello_staged example_hello_direct
    staged_equals_in_memory [OF example_gzip(1) example_hello_staged example_hello_direct]
  by blast

text \<open>
  Claim C5, as stated, fails: a report date that does not match the pattern is not always
  answered with the format error. With a configured vendor number and the empty string as
  the vendor-number argument, both handlers fail earlier, with the vendor-number error.
\<close>

theorem malformed_date_counterexample:
  "\<not> datePattern_test (js ''2024'') \<and>
   downloadSalesReport example_platform example_now (Some (js ''85012345'')) empty_world
     \<lparr>vendorNumber = Some [], reportType = None, reportSubType = None, frequency = None,
      reportDate = js ''2024''\<rparr> = (empty_world, Inl (Error vendor_required)) \<and>
   downloadFinanceReport example_platform example_now (Some (js ''85012345'')) empty_world
     \<lparr>fin_vendorNumber = Some [], fin_reportDate = js ''2024'', regionCode = js ''US''\<rparr> =
     (empty_world, Inl (Error vendor_required)) \<and>
   vendor_required \<noteq> date_format_required"
proof -
  have a: "\<not> datePattern_test (js ''2024'')" by (simp add: js_def)
  have b: "downloadSalesReport example_platform example_now (Some (js ''85012345'')) empty_world
     \<lparr>vendorNumber = Some [], reportType = None, reportSubType = None, frequency = None,
      reportDate = js ''2024''\<rparr> = (empty_world, Inl (Error vendor_required))"
    by (simp add: downloadSalesReport_def resolve_vendor_def)
  have c: "downloadFinanceReport example_platform example_now (Some (js ''85012345'')) empty_world
     \<lparr>fin_vendorNumber = Some [], fin_reportDate = js ''2024'', regionCode = js ''US''\<rparr> =
     (empty_world, Inl (Error vendor_required))"
    by (simp add: downloadFinanceReport_def resolve_vendor_def)
  have d: "vendor_required \<noteq> date_format_required"
    by (simp add: vendor_required_def date_format_required_def js_def)
  from a b c d show ?thesis by blast
qed

text \<open>
  Claim C5, amended. A report date that does not match \<open>YYYY-MM\<close> makes both handlers
  fail and leave the world, hence the list of calls, as it was: no token is generated and
  no request is sent. The error is the vendor-number error when no non-empty vendor number
  is resolved; else the message \<open>validateRequired\<close> throws, when it rejects the arguments;
  else the format error.
\<close>

theorem malformed_date_rejected:
  "(\<not> datePattern_test (reportDate args) \<longrightarrow>
      downloadSalesReport P now cv w args =
        (w, Inl (Error
              (case resolve_vendor (vendorNumber args) cv of
                 None \<Rightarrow> vendor_required
               | Some v \<Rightarrow>
                   if v = [] then vendor_required
                   else (case validateRequired P
                                 [(js ''reportDate'', Some (JString (reportDate args)))]
                                 [js ''reportDate''] of
                           Some m \<Rightarrow> m
                         | None \<Rightarrow> date_format_required)))))
   \<and> (\<not> datePattern_test (fin_reportDate fargs) \<longrightarrow>
      downloadFinanceReport P now cv w fargs =
        (w, Inl (Error
              (case resolve_vendor (fin_vendorNumber fargs) cv of
                 None \<Rightarrow> vendor_required
               | Some v \<Rightarrow>
                   if v = [] then vendor_required
                   else (case validateRequired P
                                 [(js ''reportDate'', Some (JString (fin_reportDate fargs))),
                                  (js ''regionCode'', Some (JString (regionCode fargs)))]
                                 [js ''reportDate'', js ''regionCode''] of
                           Some m \<Rightarrow> m
                         | None \<Rightarrow> date_format_required)))))"
  by (simp add: downloadSalesReport_def downloadFinanceReport_def split: option.splits)

text \<open>
  An instance of C5: the date \<open>2024-1\<close> with a configured vendor number.
\<close>

theorem malformed_date_rejected_witness:
  "\<not> datePattern_test (js ''2024-1'') \<and>
   resolve_vendor None (Some (js ''85012345'')) = Some (js ''85012345'') \<and>
   js ''85012345'' \<noteq> [] \<and>
   downloadSalesReport example_platform example_now (Some (js ''85012345'')) empty_world
     \<lparr>vendorNumber = None, reportType = None, reportSubType = None, frequency = None,
      reportDate = js ''2024-1''\<rparr> = (empty_world, Inl (Error date_format_required)) \<and>
   downloadFinanceReport example_platform example_now (Some (js ''85012345'')) empty_world
     \<lparr>fin_vendorNumber = None, fin_reportDate = js ''2024-1'', regionCode = js ''US''\<rparr> =
     (empty_world, Inl (Error date_format_required))"
proof -
  let ?args = "\<lparr>vendorNumber = None, reportType = None, reportSubType = None, frequency = None,
      reportDate = js ''2024-1''\<rparr>"
  let ?fargs = "\<lparr>fin_vendorNumber = None, fin_reportDate = js ''2024-1'', regionCode = js ''US''\<rparr>"
  have a: "\<not> datePattern_test (js ''2024-1'')" by (simp add: js_def)
  have b: "resolve_vendor None (Some (js ''85012345'')) = Some (js ''85012345'')"
    by (simp add: resolve_vendor_def)
  have c: "js ''85012345'' \<noteq> []" by (simp add: js_def)
  have v: "validateRequired example_platform ps fs = None" for ps fs
    by (simp add: example_platform_def)
  show ?thesis
    using a b c
      malformed_date_rejected [of ?args example_platform example_now "Some (js ''85012345'')"
        empty_world ?fargs]
    by (simp add: v)
qed

text \<open>
  Claim C6, as stated, fails: a date in the future is not always answered with the
  future-date error. With a configured vendor number and the empty string as the
  vendor-number argument, the handler fails earlier, with the vendor-number error.
\<close>

theorem future_date_counterexample:
  "datePattern_test (js ''2099-01'') \<and>
   in_future example_now (js ''2099-01'') \<and>
   downloadSalesReport example_platform example_now (Some (js ''85012345'')) empty_world
     \<lparr>vendorNumber = Some [], reportType = None, reportSubType = None, frequency = None,
      reportDate = js ''2099-01''\<rparr> = (empty_world, Inl (Error vendor_required)) \<and>
   vendor_required \<noteq> future_sales_date (js ''2099-01'')"
proof -
  have a: "datePattern_test (js ''2099-01'')" by (simp add: js_def is_digit_def)
  have b: "in_future example_now (js ''2099-01'')"
    by (simp add: in_future_def js_def Number_of_def is_digit_def new_Date_def instant_gt_def
        example_now_def)
  have c: "downloadSalesReport example_platform example_now (Some (js ''85012345'')) empty_world
     \<lparr>vendorNumber = Some [], reportType = None, reportSubType = None, frequency = None,
      reportDate = js ''2099-01''\<rparr> = (empty_world, Inl (Error vendor_required))"
    by (simp add: downloadSalesReport_def resolve_vendor_def)
  have d: "vendor_required \<noteq> future_sales_date (js ''2099-01'')"
    by (simp add: vendor_required_def future_sales_date_def js_def)
  from a b c d show ?thesis by blast
qed

text \<open>
  Claim C6, amended. Let a non-empty vendor number be resolved and \<open>validateRequired\<close>
  accept the arguments, and let the clock stand in month \<open>cm\<close> of a year \<open>cy\<close> from 2000
  on. For the date of month \<open>m\<close> (1 to 12) of year \<open>y\<close>: if it is later than the current
  month, both handlers fail with their future-date error and leave the world as it was;
  otherwise they call \<open>downloadReport\<close> on their endpoint, which adds calls to the list.
\<close>

theorem future_date_rejected:
  assumes "y < 10000" and "1 \<le> m" and "m \<le> 12"
    and "2000 \<le> cy" and "1 \<le> cm" and "cm \<le> 12"
    and "month_number now = 12 * int cy + int cm - 1"
    and "reportDate args = date_text y m"
    and "resolve_vendor (vendorNumber args) cv = Some v" and "v \<noteq> []"
    and "validateRequired P [(js ''reportDate'', Some (JString (reportDate args)))]
           [js ''reportDate''] = None"
    and "fin_reportDate fargs = date_text y m"
    and "resolve_vendor (fin_vendorNumber fargs) cv = Some fv" and "fv \<noteq> []"
    and "validateRequired P [(js ''reportDate'', Some (JString (fin_reportDate fargs))),
                             (js ''regionCode'', Some (JString (regionCode fargs)))]
           [js ''reportDate'', js ''regionCode''] = None"
  shows "(cy < y \<or> (y = cy \<and> cm < m) \<longrightarrow>
           downloadSalesReport P now cv w args =
             (w, Inl (Error (future_sales_date (date_text y m)))) \<and>
           downloadFinanceReport P now cv w fargs =
             (w, Inl (Error (future_finance_date (date_text y m)))))
       \<and> (\<not> (cy < y \<or> (y = cy \<and> cm < m)) \<longrightarrow>
           downloadSalesReport P now cv w args =
             downloadReport P w (js ''/salesReports'')
               (Some (buildFilterParams P
                  [(js ''reportDate'', JString (date_text y m)),
                   (js ''reportType'', JString (default_to (reportType args) (js ''SALES''))),
                   (js ''reportSubType'',
                      JString (default_to (reportSubType args) (js ''SUMMARY''))),
                   (js ''frequency'', JString (default_to (frequency args) (js ''MONTHLY''))),
                   (js ''vendorNumber'', JString v)])) \<and>
           downloadFinanceReport P now cv w fargs =
             downloadReport P w (js ''/financeReports'')
               (Some (buildFilterParams P
                  [(js ''reportDate'', JString (date_text y m)),
                   (js ''regionCode'', JString (regionCode fargs)),
                   (js ''vendorNumber'', JString fv)])) \<and>
           calls (fst (downloadSalesReport P now cv w args)) \<noteq> calls w \<and>
           calls (fst (downloadFinanceReport P now cv w fargs)) \<noteq> calls w)"
proof -
  from assms(2,3) have m: "m < 100" by simp
  have f: "in_future now (date_text y m) \<longleftrightarrow> cy < y \<or> (y = cy \<and> cm < m)"
    using in_future_date_text [OF assms(1) m, of now]
      instant_gt_month [OF assms(2,3,5,6,4,7), of y] by simp
  have s: "downloadSalesReport P now cv w args =
      (if in_future now (date_text y m)
       then (w, Inl (Error (future_sales_date (date_text y m))))
       else downloadReport P w (js ''/salesReports'')
               (Some (buildFilterParams P
                  [(js ''reportDate'', JString (date_text y m)),
                   (js ''reportType'', JString (default_to (reportType args) (js ''SALES''))),
                   (js ''reportSubType'',
                      JString (default_to (reportSubType args) (js ''SUMMARY''))),
                   (js ''frequency'', JString (default_to (frequency args) (js ''MONTHLY''))),
                   (js ''vendorNumber'', JString v)])))"
    using assms(8-11) by (simp add: downloadSalesReport_def datePattern_date_text)
  have t: "downloadFinanceReport P now cv w fargs =
      (if in_future now (date_text y m)
       then (w, Inl (Error (future_finance_date (date_text y m))))
       else downloadReport P w (js ''/financeReports'')
               (Some (buildFilterParams P
                  [(js ''reportDate'', JString (date_text y m)),
                   (js ''regionCode'', JString (regionCode fargs)),
                   (js ''vendorNumber'', JString fv)])))"
    using assms(12-15) by (simp add: downloadFinanceReport_def datePattern_date_text)
  show ?thesis
    unfolding s t f by (simp add: downloadReport_calls)
qed

text \<open>
  An instance of C6 in November 2026: \<open>2099-01\<close> is refused, \<open>2024-01\<close> goes on to
  \<open>downloadReport\<close>.
\<close>

theorem future_date_rejected_witness:
  "month_number example_now = 12 * int 2026 + int 11 - 1 \<and>
   date_text 2099 1 = js ''2099-01'' \<and>
   date_text 2024 1 = js ''2024-01'' \<and>
   downloadSalesReport example_platform example_now (Some (js ''85012345'')) empty_world
     \<lparr>vendorNumber = None, reportType = None, reportSubType = None, frequency = None,
      reportDate = js ''2099-01''\<rparr> =
     (empty_world, Inl (Error (future_sales_date (js ''2099-01'')))) \<and>
   downloadFinanceReport example_platform example_now (Some (js ''85012345'')) empty_world
     \<lparr>fin_vendorNumber = None, fin_reportDate = js ''2099-01'', regionCode = js ''US''\<rparr> =
     (empty_world, Inl (Error (future_finance_date (js ''2099-01'')))) \<and>
   calls (fst (downloadSalesReport example_platform example_now (Some (js ''85012345''))
     empty_world
     \<lparr>vendorNumber = None, reportType = None, reportSubType = None, frequency = None,
      reportDate = js ''2024-01''\<rparr>)) \<noteq> calls empty_world \<and>
   calls (fst (downloadFinanceReport example_platform example_now (Some (js ''85012345''))
     empty_world
     \<lparr>fin_vendorNumber = None, fin_reportDate = js ''2024-01'', regionCode = js ''US''\<rparr>))
     \<noteq> calls empty_world"
proof -
  let ?cv = "Some (js ''85012345'')"
  let ?future = "\<lparr>vendorNumber = None, reportType = None, reportSubType = None,
      frequency = None, reportDate = js ''2099-01''\<rparr>"
  let ?past = "\<lparr>vendorNumber = None, reportType = None, reportSubType = None,
      frequency = None, reportDate = js ''2024-01''\<rparr>"
  let ?ffuture = "\<lparr>fin_vendorNumber = None, fin_reportDate = js ''2099-01'',
      regionCode = js ''US''\<rparr>"
  let ?fpast = "\<lparr>fin_vendorNumber = None, fin_reportDate = js ''2024-01'',
      regionCode = js ''US''\<rparr>"
  have n: "month_number example_now = 12 * int 2026 + int 11 - 1"
    by (simp add: example_now_def)
  have v: "resolve_vendor None ?cv = Some (js ''85012345'')" "js ''85012345'' \<noteq> []"
    by (simp_all add: resolve_vendor_def js_def)
  have r: "validateRequired example_platform ps fs = None" for ps fs
    by (simp add: example_platform_def)
  have y: "(2099::nat) < 10000" "(2024::nat) < 10000" "(1::nat) \<le> 1" "(1::nat) \<le> 12"
    "(2000::nat) \<le> 2026" "(1::nat) \<le> 11" "(11::nat) \<le> 12"
    by simp_all
  have d: "reportDate ?future = date_text 2099 1" "fin_reportDate ?ffuture = date_text 2099 1"
    "reportDate ?past = date_text 2024 1" "fin_reportDate ?fpast = date_text 2024 1"
    by (simp_all add: date_text_def four_digits_def two_digits_def js_def)
  have a: "resolve_vendor (vendorNumber ?future) ?cv = Some (js ''85012345'')"
    "resolve_vendor (fin_vendorNumber ?ffuture) ?cv = Some (js ''85012345'')"
    "resolve_vendor (vendorNumber ?past) ?cv = Some (js ''85012345'')"
    "resolve_vendor (fin_vendorNumber ?fpast) ?cv = Some (js ''85012345'')"
    by (simp_all add: v)
  have later: "(2026::nat) < 2099 \<or> ((2099::nat) = 2026 \<and> (11::nat) < 1)" by simp
  have earlier: "\<not> ((2026::nat) < 2024 \<or> ((2024::nat) = 2026 \<and> (11::nat) < 1))" by simp
  have future:
    "downloadSalesReport example_platform example_now ?cv empty_world ?future =
       (empty_world, Inl (Error (future_sales_date (date_text 2099 1)))) \<and>
     downloadFinanceReport example_platform example_now ?cv empty_world ?ffuture =
       (empty_world, Inl (Error (future_finance_date (date_text 2099 1))))"
    using future_date_rejected [OF y(1) y(3) y(4) y(5) y(6) y(7) n d(1) a(1) v(2) r d(2) a(2)
        v(2) r, of empty_world] later
    by blast
  have past:
    "calls (fst (downloadSalesReport example_platform example_now ?cv empty_world ?past))
       \<noteq> calls empty_world \<and>
     calls (fst (downloadFinanceReport example_platform example_now ?cv empty_world ?fpast))
       \<noteq> calls empty_world"
    using future_date_rejected [OF y(2) y(3) y(4) y(5) y(6) y(7) n d(3) a(3) v(2) r d(4) a(4)
        v(2) r, of empty_world] earlier
    by blast
  from n example_dates future past show ?thesis by (simp only: example_dates) blast
qed

text \<open>
  Claim C7. A failed call with HTTP status 404 whose request path contains the sales-report
  segment gets the diagnostic text that names the three usual causes: the date is in the
  future, there is no data for the period, the report has not been generated yet. It is
  not the generic resource-not-found message.
\<close>

theorem sales_404_diagnostic:
  assumes "response_status e = Some 404"
    and "url_includes (config_url e) (js ''/salesReports'')"
  shows "text_content (formatToolResponse stringify result (Some (AxiosError e))) =
           js ''Sales report not found. This typically happens when:\<newline>'' @
           js ''- The requested date is in the future\<newline>'' @
           js ''- No sales data exists for the requested period\<newline>'' @
           js ''- The report hasn't been generated yet (reports are usually available 1-2 days after the period ends)''
         \<and> str_includes (text_content (formatToolResponse stringify result (Some (AxiosError e))))
             (js ''The requested date is in the future'')
         \<and> str_includes (text_content (formatToolResponse stringify result (Some (AxiosError e))))
             (js ''No sales data exists for the requested period'')
         \<and> str_includes (text_content (formatToolResponse stringify result (Some (AxiosError e))))
             (js ''The report hasn't been generated yet'')
         \<and> \<not> str_includes (text_content (formatToolResponse stringify result (Some (AxiosError e))))
             (js ''not found (404)'')"
proof -
  have t: "text_content (formatToolResponse stringify result (Some (AxiosError e))) = sales_not_found"
    using assms by (simp add: formatToolResponse_def axios_error_message_def)
  have c1: "str_includes sales_not_found (js ''The requested date is in the future'')"
    by (simp add: sales_not_found_def js_def)
  have c2: "str_includes sales_not_found (js ''No sales data exists for the requested period'')"
    by (simp add: sales_not_found_def js_def)
  have c3: "str_includes sales_not_found (js ''The report hasn't been generated yet'')"
    by (simp add: sales_not_found_def js_def)
  have c4: "\<not> str_includes sales_not_found (js ''not found (404)'')"
    by (simp add: sales_not_found_def js_def)
  show ?thesis unfolding t using c1 c2 c3 c4 by (simp add: sales_not_found_def)
qed

text \<open>
  An instance of C7: a 404 on \<open>/salesReports\<close>.
\<close>

theorem sales_404_diagnostic_witness:
  "response_status \<lparr>ax_message = js ''Request failed with status code 404'',
       response_status = Some 404, response_error0 = None,
       config_url = Some (js ''/salesReports''), config_params_include = False\<rparr> = Some 404
   \<and> url_includes (config_url \<lparr>ax_message = js ''Request failed with status code 404'',
       response_status = Some 404, response_error0 = None,
       config_url = Some (js ''/salesReports''), config_params_include = False\<rparr>) (js ''/salesReports'')
   \<and> str_includes (text_content (formatToolResponse (\<lambda>v. js ''null'') JNull
        (Some (AxiosError \<lparr>ax_message = js ''Request failed with status code 404'',
       response_status = Some 404, response_error0 = None,
       config_url = Some (js ''/salesReports''), config_params_include = False\<rparr>))))
        (js ''The requested date is in the future'')"
proof -
  let ?e = "\<lparr>ax_message = js ''Request failed with status code 404'',
       response_status = Some 404, response_error0 = None,
       config_url = Some (js ''/salesReports''), config_params_include = False\<rparr>"
  have h1: "response_status ?e = Some 404" by simp
  have h2: "url_includes (config_url ?e) (js ''/salesReports'')"
    by (simp add: url_includes_def js_def)
  show ?thesis using h1 h2 sales_404_diagnostic [OF h1 h2, of "\<lambda>v. js ''null''" JNull] by blast
qed

text \<open>
  Claim C8, as stated, fails: \<open>downloadReport\<close> calls a report endpoint with the accept
  header \<open>application/a-gzip\<close>, not \<open>application/a-gzip, application/json\<close>.
\<close>

theorem downloadReport_accept_counterexample:
  "isReportEndpoint (js ''/salesReports'') \<and>
   calls (fst (downloadReport example_platform empty_world (js ''/salesReports'') None)) =
     [TokenCall, HttpCall (downloadReport_config (js ''token'') (js ''/salesReports'') None)] \<and>
   map_of (cfg_headers (downloadReport_config (js ''token'') (js ''/salesReports'') None))
     (js ''Accept'') = Some (js ''application/a-gzip'') \<and>
   js ''application/a-gzip'' \<noteq> js ''application/a-gzip, application/json''"
proof -
  have a: "isReportEndpoint (js ''/salesReports'')"
    by (simp add: isReportEndpoint_def js_def)
  have b: "calls (fst (downloadReport example_platform empty_world (js ''/salesReports'') None)) =
     [TokenCall, HttpCall (downloadReport_config (js ''token'') (js ''/salesReports'') None)]"
    by (simp add: downloadReport_calls example_platform_def empty_world_def)
  have c: "map_of (cfg_headers (downloadReport_config (js ''token'') (js ''/salesReports'') None))
     (js ''Accept'') = Some (js ''application/a-gzip'')"
    by (simp add: downloadReport_config_def js_def)
  have d: "js ''application/a-gzip'' \<noteq> js ''application/a-gzip, application/json''"
    by (simp add: js_def)
  from a b c d show ?thesis by blast
qed

text \<open>
  Claim C8, amended. The call \<open>request\<close> sends to a report endpoint has the accept header
  \<open>application/a-gzip, application/json\<close> and the response type \<open>arraybuffer\<close>; the one
  it sends to any other endpoint has the response type \<open>json\<close> and no accept header. The
  call \<open>downloadReport\<close> sends has the accept header \<open>application/a-gzip\<close> and the
  response type \<open>arraybuffer\<close>. Once the token is issued, these are the calls made.
\<close>

theorem transport_mode_by_client:
  "(isReportEndpoint url \<longrightarrow>
      map_of (cfg_headers (request_config token method url data params)) (js ''Accept'') =
        Some (js ''application/a-gzip, application/json'') \<and>
      cfg_responseType (request_config token method url data params) = Some (js ''arraybuffer''))
   \<and> (\<not> isReportEndpoint url \<longrightarrow>
      map_of (cfg_headers (request_config token method url data params)) (js ''Accept'') = None \<and>
      cfg_responseType (request_config token method url data params) = Some (js ''json''))
   \<and> map_of (cfg_headers (downloadReport_config token url params)) (js ''Accept'') =
        Some (js ''application/a-gzip'')
   \<and> cfg_responseType (downloadReport_config token url params) = Some (js ''arraybuffer'')
   \<and> (generateToken P = Inr token \<longrightarrow>
        calls (fst (request P ts r w method url data params)) =
          calls w @ [TokenCall, HttpCall (request_config token method url data params)] \<and>
        calls (fst (downloadReport P w url params)) =
          calls w @ [TokenCall, HttpCall (downloadReport_config token url params)])"
proof -
  have a: "map_of (cfg_headers (downloadReport_config token url params)) (js ''Accept'') =
        Some (js ''application/a-gzip'')"
    by (simp add: downloadReport_config_def js_def)
  show ?thesis
    using a by (simp add: request_config_def request_accept request_calls downloadReport_calls
      downloadReport_config_def)
qed

text \<open>
  An instance of C8: \<open>/salesReports\<close> and \<open>/apps\<close>.
\<close>

theorem transport_mode_by_client_witness:
  "isReportEndpoint (js ''/salesReports'') \<and>
   cfg_responseType (request_config (js ''token'') GET (js ''/salesReports'') None None) =
     Some (js ''arraybuffer'') \<and>
   \<not> isReportEndpoint (js ''/apps'') \<and>
   cfg_responseType (request_config (js ''token'') GET (js ''/apps'') None None) =
     Some (js ''json'') \<and>
   generateToken example_platform = Inr (js ''token'') \<and>
   calls (fst (request example_platform 1730000000000 42 empty_world GET (js ''/apps'') None None)) =
     calls empty_world @ [TokenCall, HttpCall (request_config (js ''token'') GET (js ''/apps'') None None)]"
proof -
  have a: "isReportEndpoint (js ''/salesReports'')"
    by (simp add: isReportEndpoint_def js_def)
  have b: "\<not> isReportEndpoint (js ''/apps'')"
    by (simp add: isReportEndpoint_def js_def)
  have c: "generateToken example_platform = Inr (js ''token'')"
    by (simp add: example_platform_def)
  show ?thesis
    using a b c
      transport_mode_by_client [of "js ''/salesReports''" "js ''token''" GET None None
        example_platform 1730000000000 42 empty_world]
      transport_mode_by_client [of "js ''/apps''" "js ''token''" GET None None
        example_platform 1730000000000 42 empty_world]
    by blast
qed

text \<open>
  Claim C9. A report response that is not gzipped and whose text, trimmed, does not begin
  with \<open>{\<close> is returned decoded as UTF-8 and otherwise unchanged, by both clients.
\<close>

theorem plain_text_returned_unchanged:
  assumes "\<not> is_gzip buf"
    and "\<not> startsWith (trim (toString_utf8 P buf)) (js ''{'')"
  shows "report_response P ts r w (BufferData buf) = (w, Inr (ReportData (toString_utf8 P buf)))
    \<and> report_response P ts r w (ArrayBufferData buf) = (w, Inr (ReportData (toString_utf8 P buf)))
    \<and> decode_report P buf = Inr (toString_utf8 P buf)"
  using assms by (simp add: report_response_def plain_report_def decode_report_def)

text \<open>
  An instance of C9: a line of report text.
\<close>

theorem plain_text_returned_unchanged_witness:
  "\<not> is_gzip (bytes ''Provider,Units'') \<and>
   \<not> startsWith (trim (toString_utf8 example_platform (bytes ''Provider,Units''))) (js ''{'') \<and>
   report_response example_platform 1730000000000 42 empty_world (BufferData (bytes ''Provider,Units'')) =
     (empty_world, Inr (ReportData (js ''Provider,Units''))) \<and>
   decode_report example_platform (bytes ''Provider,Units'') = Inr (js ''Provider,Units'')"
proof -
  have a: "\<not> is_gzip (bytes ''Provider,Units'')"
    by (simp add: is_gzip_def bytes_def)
  have t: "toString_utf8 example_platform (bytes ''Provider,Units'') = js ''Provider,Units''"
    by (simp add: example_platform_def bytes_def js_def)
  have b: "\<not> startsWith (trim (toString_utf8 example_platform (bytes ''Provider,Units''))) (js ''{'')"
    unfolding t by (simp add: startsWith_def trim_def is_js_space_def js_def)
  show ?thesis
    using a b plain_text_returned_unchanged [OF a b, of 1730000000000 42 empty_world]
    unfolding t by blast
qed

text \<open>
  Claim C10. A gzip buffer whose decompressed text, read back, is empty makes the staging
  client fail with \<open>Decompressed data contains invalid characters\<close>, although the text
  contains no NUL character.
\<close>

theorem empty_report_rejected:
  assumes "is_gzip buf"
    and "gunzipSync P buf = Inr d"
    and "toString_utf8 P d = []"
    and "write_fault w (tempGzPath P ts r) = None"
    and "write_fault w (tempTxtPath P ts r) = None"
    and "read_fault w (tempTxtPath P ts r) = None"
  shows "snd (report_response P ts r w (BufferData buf)) =
           Inl (Error (js ''Failed to decompress report data: '' @
                       js ''Decompressed data contains invalid characters''))
         \<and> \<not> str_includes (toString_utf8 P d) [0]"
  using assms
  by (simp add: report_response_def decompress_staged_snd stage_outcome)

text \<open>
  An instance of C10: the gzip buffer of the empty text.
\<close>

theorem empty_report_rejected_witness:
  "is_gzip gz_empty \<and>
   gunzipSync example_platform gz_empty = Inr [] \<and>
   toString_utf8 example_platform [] = [] \<and>
   write_fault empty_world (tempGzPath example_platform 1730000000000 42) = None \<and>
   write_fault empty_world (tempTxtPath example_platform 1730000000000 42) = None \<and>
   read_fault empty_world (tempTxtPath example_platform 1730000000000 42) = None \<and>
   snd (report_response example_platform 1730000000000 42 empty_world (BufferData gz_empty)) =
     Inl (Error (js ''Failed to decompress report data: '' @
                 js ''Decompressed data contains invalid characters''))"
  using example_gzip(2) example_gunzip(2) example_toString(2) example_no_faults(1,2)
    empty_report_rejected [OF example_gzip(2) example_gunzip(2) example_toString(2)
      example_no_faults(1) example_no_faults(1) example_no_faults(2),
      of 1730000000000 42]
  by blast

end
